theory Spec2Isabelle
  imports Main "HOL-Library.Sublist"
begin

section \<open>Data model\<close>

text \<open>
  The command \<^verbatim>\<open>entra approleassignment list\<close>
  (\<^verbatim>\<open>src/m365/entra/commands/approleassignment/approleassignment-list.ts\<close>).
  The Graph types come from \<^verbatim>\<open>@microsoft/microsoft-graph-types\<close>; only the fields the
  command reads are kept. Identifiers are strings and \<^verbatim>\<open>===\<close> on them is equality.
  The command writes \<^verbatim>\<open>resource.appRoles!\<close> and \<^verbatim>\<open>appRoleAssignments!\<close>, so both
  collections are present: they are lists.
\<close>

record AppRole =
  role_id :: string
  role_value :: string

record AppRoleAssignment =
  appRoleId :: string
  resourceDisplayName :: string
  resourceId :: string
  createdDateTime :: string
  deletedDateTime :: string

record ServicePrincipal =
  sp_id :: string
  appRoles :: "AppRole list"
  appRoleAssignments :: "AppRoleAssignment list"

text \<open>The object literal pushed onto \<^verbatim>\<open>results\<close> (lines 116 to 124).\<close>

record EnrichedAssignment =
  appRoleId :: string
  resourceDisplayName :: string
  resourceId :: string
  roleId :: string
  roleName :: string
  created :: string
  deleted :: string

text \<open>\<^verbatim>\<open>interface Options\<close>: each option is a string or undefined.\<close>

record Options =
  appId :: "string option"
  appDisplayName :: "string option"
  appObjectId :: "string option"

text \<open>
  What reaches the \<^verbatim>\<open>catch\<close> of \<^verbatim>\<open>commandAction\<close>: a string thrown by
  \<^verbatim>\<open>getAppRoleAssignments\<close>, or the reason a request was rejected with. The two
  are kept apart: a rejected request carries a reason of the transport's.
  \<open>ValidationError\<close> is the failure of the validation that precedes the action.
\<close>

type_synonym reason = string

datatype error = ValidationError string | Thrown string | Rejected reason

type_synonym url = string

text \<open>
  The collaborators the command imports and does not define: \<^verbatim>\<open>this.resource\<close> (here \<open>this_resource\<close>) of
  \<^verbatim>\<open>GraphCommand\<close>, \<^verbatim>\<open>formatting.encodeQueryParameter\<close>, and \<^verbatim>\<open>request.get\<close> at the
  three response types it is called with (for the two collection responses the
  function gives the \<^verbatim>\<open>value\<close> array). A request is identified by its url; the
  headers and the response type are the same in all three.
\<close>

record collaborators =
  this_resource :: string
  encodeQueryParameter :: "string option \<Rightarrow> string"
  get_assignments :: "url \<Rightarrow> reason + AppRoleAssignment list"
  get_servicePrincipals :: "url \<Rightarrow> reason + ServicePrincipal list"
  get_servicePrincipal :: "url \<Rightarrow> reason + ServicePrincipal"

text \<open>An asynchronous call: its outcome and the urls of the requests it issued, in order.\<close>

type_synonym 'a async = "(error + 'a) \<times> url list"

section \<open>JavaScript helpers\<close>

text \<open>Truthiness of an optional string: undefined and the empty string are falsy.\<close>

fun truthy :: "string option \<Rightarrow> bool" where
  "truthy None = False"
| "truthy (Some s) = (s \<noteq> [])"

text \<open>The promise of a request: resolved with the response, or rejected with the reason.\<close>

fun awaited :: "reason + 'a \<Rightarrow> error + 'a" where
  "awaited (Inl r) = Inl (Rejected r)"
| "awaited (Inr x) = Inr x"

text \<open>A value interpolated into a template string.\<close>

fun interpolate :: "string option \<Rightarrow> string" where
  "interpolate None = ''undefined''"
| "interpolate (Some s) = s"

text \<open>
  \<^verbatim>\<open>Promise.all\<close> over tasks that have all been started: the array of the values
  when every task resolves, a rejection otherwise (of the rejected tasks, the
  first in array order stands for the one that rejects first).
\<close>

fun promise_all :: "(error + 'a) list \<Rightarrow> error + 'a list" where
  "promise_all [] = Inr []"
| "promise_all (Inl e # ts) = Inl e"
| "promise_all (Inr x # ts) =
     (case promise_all ts of Inl e \<Rightarrow> Inl e | Inr xs \<Rightarrow> Inr (x # xs))"

section \<open>Validation\<close>

datatype guid_char = Hex | Dash | Other

definition guid_class :: "char \<Rightarrow> guid_char" where
  "guid_class c =
     (if c \<in> set ''0123456789abcdefABCDEF'' then Hex
      else if c = CHR ''-'' then Dash else Other)"

definition guid_shape :: "guid_char list" where
  "guid_shape =
     [Hex, Hex, Hex, Hex, Hex, Hex, Hex, Hex, Dash,
      Hex, Hex, Hex, Hex, Dash,
      Hex, Hex, Hex, Hex, Dash,
      Hex, Hex, Hex, Hex, Dash,
      Hex, Hex, Hex, Hex, Hex, Hex, Hex, Hex, Hex, Hex, Hex, Hex]"

text \<open>
  Modelled from the spec: \<^verbatim>\<open>validation.isValidGuid\<close> of \<^verbatim>\<open>utils/validation.js\<close> is not
  among the sources. The spec has it accept exactly the canonical GUID textual
  form: groups of 8, 4, 4, 4 and 12 hexadecimal digits separated by hyphens.
\<close>

definition isValidGuid :: "string \<Rightarrow> bool" where
  "isValidGuid g = (map guid_class g = guid_shape)"

text \<open>A validator returns \<^verbatim>\<open>true\<close> or a message.\<close>

datatype validated = VTrue | VMessage string

text \<open>
  One \<^verbatim>\<open>if\<close> of the validator (lines 70 to 76):
  \<^verbatim>\<open>if (v && !validation.isValidGuid(v)) return `${v} is not a valid GUID`\<close>.
\<close>

fun guidMessage :: "string option \<Rightarrow> string option" where
  "guidMessage None = None"
| "guidMessage (Some v) =
     (if v \<noteq> [] \<and> \<not> isValidGuid v then Some (v @ '' is not a valid GUID'') else None)"

text \<open>The validator pushed by \<^verbatim>\<open>#initValidators\<close> (lines 67 to 81).\<close>

definition validator :: "Options \<Rightarrow> validated" where
  "validator options =
     (case guidMessage (appId options) of
        Some m \<Rightarrow> VMessage m
      | None \<Rightarrow>
          (case guidMessage (appObjectId options) of
             Some m \<Rightarrow> VMessage m
           | None \<Rightarrow> VTrue))"

text \<open>The option set pushed by \<^verbatim>\<open>#initOptionSets\<close> (line 84).\<close>

definition optionSets :: "string list list" where
  "optionSets = [[''appId'', ''appObjectId'', ''appDisplayName'']]"

text \<open>The names of the options that are supplied, that is, not undefined.\<close>

definition suppliedOptions :: "Options \<Rightarrow> string list" where
  "suppliedOptions options =
     (if appId options \<noteq> None then [''appId''] else []) @
     (if appDisplayName options \<noteq> None then [''appDisplayName''] else []) @
     (if appObjectId options \<noteq> None then [''appObjectId''] else [])"

text \<open>
  Modelled from the spec: the enforcement of option sets belongs to the command
  framework (\<^verbatim>\<open>Command\<close>), which is not among the sources. By the spec exactly one
  option of a set must be supplied; none or several is a validation failure.
\<close>

fun checkOptionSets :: "string list list \<Rightarrow> string list \<Rightarrow> validated" where
  "checkOptionSets [] supplied = VTrue"
| "checkOptionSets (s # sets) supplied =
     (if length (filter (\<lambda>n. n \<in> set s) supplied) = 1
      then checkOptionSets sets supplied
      else VMessage ''Specify exactly one of the options of the set'')"

definition validateOptionSets :: "Options \<Rightarrow> validated" where
  "validateOptionSets options = checkOptionSets optionSets (suppliedOptions options)"

section \<open>Application locator\<close>

text \<open>The three private request methods (lines 160 to 194).\<close>

definition getSPAppRoleAssignments ::
  "collaborators \<Rightarrow> string \<Rightarrow> AppRoleAssignment list async" where
  "getSPAppRoleAssignments d spId =
     (let u = this_resource d @ ''/v1.0/servicePrincipals/'' @ spId @ ''/appRoleAssignments''
      in (awaited (get_assignments d u), [u]))"

definition getServicePrincipalForApp ::
  "collaborators \<Rightarrow> string \<Rightarrow> ServicePrincipal list async" where
  "getServicePrincipalForApp d filterParam =
     (let u = this_resource d @
              ''/v1.0/servicePrincipals?$expand=appRoleAssignments&$filter='' @ filterParam
      in (awaited (get_servicePrincipals d u), [u]))"

definition getServicePrincipal ::
  "collaborators \<Rightarrow> string \<Rightarrow> ServicePrincipal async" where
  "getServicePrincipal d spId =
     (let u = this_resource d @ ''/v1.0/servicePrincipals/'' @ spId
      in (awaited (get_servicePrincipal d u), [u]))"

text \<open>The filter expression built at lines 147 to 149.\<close>

definition spMatchQuery :: "collaborators \<Rightarrow> Options \<Rightarrow> string" where
  "spMatchQuery d argOptions =
     (if truthy (appId argOptions)
      then ''appId eq '' @ [CHR 0x27] @ encodeQueryParameter d (appId argOptions) @ [CHR 0x27]
      else ''displayName eq '' @ [CHR 0x27] @
           encodeQueryParameter d (appDisplayName argOptions) @ [CHR 0x27])"

text \<open>\<^verbatim>\<open>getAppRoleAssignments\<close> (lines 136 to 158).\<close>

definition getAppRoleAssignments ::
  "collaborators \<Rightarrow> Options \<Rightarrow> AppRoleAssignment list async" where
  "getAppRoleAssignments d argOptions =
     (if truthy (appObjectId argOptions) then
        (case getSPAppRoleAssignments d (interpolate (appObjectId argOptions)) of
           (Inl err, sent) \<Rightarrow> (Inl err, sent)
         | (Inr spAppRoleAssignments, sent) \<Rightarrow>
             (if spAppRoleAssignments = []
              then (Inl (Thrown ''no app role assignments found''), sent)
              else (Inr spAppRoleAssignments, sent)))
      else
        (case getServicePrincipalForApp d (spMatchQuery d argOptions) of
           (Inl err, sent) \<Rightarrow> (Inl err, sent)
         | (Inr [], sent) \<Rightarrow> (Inl (Thrown ''app registration not found''), sent)
         | (Inr (sp # others), sent) \<Rightarrow> (Inr (appRoleAssignments sp), sent)))"

section \<open>Resource resolver and assignment joiner\<close>

text \<open>
  The callback of \<^verbatim>\<open>spAppRoleAssignments.map\<close> (lines 109 to 127), with the array
  \<^verbatim>\<open>results\<close> it pushes onto passed in and returned. \<open>find\<close> is
  \<^verbatim>\<open>Array.prototype.find\<close>: the first element that satisfies the predicate.
\<close>

definition joinCallback ::
  "ServicePrincipal list \<Rightarrow> AppRoleAssignment \<Rightarrow> EnrichedAssignment list
     \<Rightarrow> EnrichedAssignment list" where
  "joinCallback resources appRoleAssignment results =
     (case find (\<lambda>r. sp_id r = AppRoleAssignment.resourceId appRoleAssignment) resources of
        None \<Rightarrow> results
      | Some resource \<Rightarrow>
          (case find (\<lambda>r. role_id r = AppRoleAssignment.appRoleId appRoleAssignment)
                  (appRoles resource) of
             None \<Rightarrow> results
           | Some appRole \<Rightarrow>
               results @
               [\<lparr> appRoleId = AppRoleAssignment.appRoleId appRoleAssignment,
                  resourceDisplayName = AppRoleAssignment.resourceDisplayName appRoleAssignment,
                  resourceId = AppRoleAssignment.resourceId appRoleAssignment,
                  roleId = role_id appRole,
                  roleName = role_value appRole,
                  created = createdDateTime appRoleAssignment,
                  deleted = deletedDateTime appRoleAssignment \<rparr>]))"

text \<open>Lines 108 to 127: the callback runs on every assignment in order, from no results.\<close>

definition joinAssignments ::
  "AppRoleAssignment list \<Rightarrow> ServicePrincipal list \<Rightarrow> EnrichedAssignment list" where
  "joinAssignments spAppRoleAssignments resources =
     fold (joinCallback resources) spAppRoleAssignments []"

text \<open>
  Lines 97 to 104: one task per entry of \<^verbatim>\<open>resourceIds\<close>, every task started by the
  loop, then \<^verbatim>\<open>Promise.all\<close>.
\<close>

definition fetchResources ::
  "collaborators \<Rightarrow> AppRoleAssignment list \<Rightarrow> ServicePrincipal list async" where
  "fetchResources d spAppRoleAssignments =
     (let resourceIds = map AppRoleAssignment.resourceId spAppRoleAssignments;
          tasks = map (getServicePrincipal d) resourceIds
      in (promise_all (map fst tasks), concat (map snd tasks)))"

text \<open>Lines 97 to 129: what \<^verbatim>\<open>commandAction\<close> does with the assignments once it has them.\<close>

definition enrichAssignments ::
  "collaborators \<Rightarrow> AppRoleAssignment list \<Rightarrow> EnrichedAssignment list async" where
  "enrichAssignments d spAppRoleAssignments =
     (case fetchResources d spAppRoleAssignments of
        (Inl err, sent) \<Rightarrow> (Inl err, sent)
      | (Inr resources, sent) \<Rightarrow> (Inr (joinAssignments spAppRoleAssignments resources), sent))"

text \<open>
  \<^verbatim>\<open>commandAction\<close> (lines 91 to 134): the value is what is logged, the error is
  what the \<^verbatim>\<open>catch\<close> hands to \<^verbatim>\<open>handleRejectedODataJsonPromise\<close>.
\<close>

definition commandAction :: "collaborators \<Rightarrow> Options \<Rightarrow> EnrichedAssignment list async" where
  "commandAction d options =
     (case getAppRoleAssignments d options of
        (Inl err, sent) \<Rightarrow> (Inl err, sent)
      | (Inr spAppRoleAssignments, sent) \<Rightarrow>
          (case enrichAssignments d spAppRoleAssignments of
             (outcome, sent') \<Rightarrow> (outcome, sent @ sent')))"

text \<open>
  Modelled from the spec: the framework that runs the validation before the action
  is not among the sources. By the spec a failed validation (a validator or an
  option set) is surfaced immediately and no network access is attempted.
\<close>

definition validate :: "Options \<Rightarrow> validated" where
  "validate options =
     (case validateOptionSets options of
        VMessage m \<Rightarrow> VMessage m
      | VTrue \<Rightarrow> validator options)"

definition run :: "collaborators \<Rightarrow> Options \<Rightarrow> EnrichedAssignment list async" where
  "run d options =
     (case validate options of
        VMessage m \<Rightarrow> (Inl (ValidationError m), [])
      | VTrue \<Rightarrow> commandAction d options)"

section \<open>The resolver with distinct fetches, as the design notes describe it\<close>

text \<open>
  The resource ids deduplicated in order of first occurrence, as a JavaScript
  \<^verbatim>\<open>Set\<close> keeps them.
\<close>

fun distinctIds :: "string list \<Rightarrow> string list" where
  "distinctIds [] = []"
| "distinctIds (x # xs) = x # distinctIds (filter (\<lambda>y. y \<noteq> x) xs)"

definition fetchResources_distinct ::
  "collaborators \<Rightarrow> AppRoleAssignment list \<Rightarrow> ServicePrincipal list async" where
  "fetchResources_distinct d spAppRoleAssignments =
     (let resourceIds = distinctIds (map AppRoleAssignment.resourceId spAppRoleAssignments);
          tasks = map (getServicePrincipal d) resourceIds
      in (promise_all (map fst tasks), concat (map snd tasks)))"

text \<open>
  The lookup keyed by resource id. At a repeated key the first entry stays, as the
  linear search it replaces returns the first match.
\<close>

definition lookupById :: "ServicePrincipal list \<Rightarrow> (string \<rightharpoonup> ServicePrincipal)" where
  "lookupById resources = map_of (map (\<lambda>r. (sp_id r, r)) resources)"

definition joinCallback_lookup ::
  "(string \<rightharpoonup> ServicePrincipal) \<Rightarrow> AppRoleAssignment \<Rightarrow> EnrichedAssignment list
     \<Rightarrow> EnrichedAssignment list" where
  "joinCallback_lookup byId appRoleAssignment results =
     (case byId (AppRoleAssignment.resourceId appRoleAssignment) of
        None \<Rightarrow> results
      | Some resource \<Rightarrow>
          (case find (\<lambda>r. role_id r = AppRoleAssignment.appRoleId appRoleAssignment)
                  (appRoles resource) of
             None \<Rightarrow> results
           | Some appRole \<Rightarrow>
               results @
               [\<lparr> appRoleId = AppRoleAssignment.appRoleId appRoleAssignment,
                  resourceDisplayName = AppRoleAssignment.resourceDisplayName appRoleAssignment,
                  resourceId = AppRoleAssignment.resourceId appRoleAssignment,
                  roleId = role_id appRole,
                  roleName = role_value appRole,
                  created = createdDateTime appRoleAssignment,
                  deleted = deletedDateTime appRoleAssignment \<rparr>]))"

definition joinAssignments_lookup ::
  "AppRoleAssignment list \<Rightarrow> (string \<rightharpoonup> ServicePrincipal) \<Rightarrow> EnrichedAssignment list" where
  "joinAssignments_lookup spAppRoleAssignments byId =
     fold (joinCallback_lookup byId) spAppRoleAssignments []"

definition enrichAssignments_distinct ::
  "collaborators \<Rightarrow> AppRoleAssignment list \<Rightarrow> EnrichedAssignment list async" where
  "enrichAssignments_distinct d spAppRoleAssignments =
     (case fetchResources_distinct d spAppRoleAssignments of
        (Inl err, sent) \<Rightarrow> (Inl err, sent)
      | (Inr resources, sent) \<Rightarrow>
          (Inr (joinAssignments_lookup spAppRoleAssignments (lookupById resources)), sent))"

section \<open>Reading an output record back\<close>

text \<open>The assignment fields an output record carries: all five of them.\<close>

definition sourceOf :: "EnrichedAssignment \<Rightarrow> AppRoleAssignment" where
  "sourceOf e =
     \<lparr> AppRoleAssignment.appRoleId = EnrichedAssignment.appRoleId e,
       AppRoleAssignment.resourceDisplayName = EnrichedAssignment.resourceDisplayName e,
       AppRoleAssignment.resourceId = EnrichedAssignment.resourceId e,
       createdDateTime = created e,
       deletedDateTime = deleted e \<rparr>"

text \<open>
  An assignment is matched by a resource list when the list has a resource with
  its \<open>resourceId\<close> and the first such resource declares a role with its
  \<open>appRoleId\<close>. Every other assignment is a dropped one.
\<close>

definition matched :: "ServicePrincipal list \<Rightarrow> AppRoleAssignment \<Rightarrow> bool" where
  "matched resources a =
     (case find (\<lambda>r. sp_id r = AppRoleAssignment.resourceId a) resources of
        None \<Rightarrow> False
      | Some resource \<Rightarrow> AppRoleAssignment.appRoleId a \<in> role_id ` set (appRoles resource))"

section \<open>A sample directory\<close>

text \<open>
  A small directory to run the command on. The resource \<open>R1\<close> declares the role
  \<open>Role1\<close> with the value \<open>Reader\<close>; no other resource exists. Two service
  principals are named \<open>Contoso\<close>; the one with the application id of fours has
  no assignment; the object id of threes has two assignments, and every other
  object id has none.
\<close>

definition sampleRole :: AppRole where
  "sampleRole = \<lparr> role_id = ''Role1'', role_value = ''Reader'' \<rparr>"

definition sampleAssignment :: AppRoleAssignment where
  "sampleAssignment =
     \<lparr> AppRoleAssignment.appRoleId = ''Role1'',
       AppRoleAssignment.resourceDisplayName = ''Contoso API'',
       AppRoleAssignment.resourceId = ''R1'',
       createdDateTime = ''2024-01-01'',
       deletedDateTime = [] \<rparr>"

text \<open>An assignment of a role that \<open>R1\<close> does not declare.\<close>

definition strayAssignment :: AppRoleAssignment where
  "strayAssignment =
     \<lparr> AppRoleAssignment.appRoleId = ''Role2'',
       AppRoleAssignment.resourceDisplayName = ''Contoso API'',
       AppRoleAssignment.resourceId = ''R1'',
       createdDateTime = ''2024-01-02'',
       deletedDateTime = [] \<rparr>"

text \<open>An assignment on a resource that the directory does not have.\<close>

definition lostAssignment :: AppRoleAssignment where
  "lostAssignment =
     \<lparr> AppRoleAssignment.appRoleId = ''Role1'',
       AppRoleAssignment.resourceDisplayName = ''Gone'',
       AppRoleAssignment.resourceId = ''R9'',
       createdDateTime = ''2024-01-03'',
       deletedDateTime = [] \<rparr>"

definition sampleResource :: ServicePrincipal where
  "sampleResource = \<lparr> sp_id = ''R1'', appRoles = [sampleRole], appRoleAssignments = [] \<rparr>"

definition sampleRecord :: EnrichedAssignment where
  "sampleRecord =
     \<lparr> appRoleId = ''Role1'', resourceDisplayName = ''Contoso API'', resourceId = ''R1'',
       roleId = ''Role1'', roleName = ''Reader'', created = ''2024-01-01'', deleted = [] \<rparr>"

definition firstApp :: ServicePrincipal where
  "firstApp =
     \<lparr> sp_id = ''SP1'', appRoles = [],
       appRoleAssignments = [strayAssignment, sampleAssignment, sampleAssignment] \<rparr>"

definition secondApp :: ServicePrincipal where
  "secondApp = \<lparr> sp_id = ''SP2'', appRoles = [], appRoleAssignments = [lostAssignment] \<rparr>"

definition idleApp :: ServicePrincipal where
  "idleApp = \<lparr> sp_id = ''SP4'', appRoles = [], appRoleAssignments = [] \<rparr>"

definition sampleDirectory :: collaborators where
  "sampleDirectory =
     \<lparr> this_resource = ''https://graph'',
       encodeQueryParameter = interpolate,
       get_assignments = (\<lambda>u.
         if u = ''https://graph/v1.0/servicePrincipals/33333333-3333-3333-3333-333333333333/appRoleAssignments''
         then Inr [sampleAssignment, lostAssignment] else Inr []),
       get_servicePrincipals = (\<lambda>u.
         if u = ''https://graph/v1.0/servicePrincipals?$expand=appRoleAssignments&$filter=displayName eq '' @
                [CHR 0x27] @ ''Contoso'' @ [CHR 0x27]
         then Inr [firstApp, secondApp]
         else if u = ''https://graph/v1.0/servicePrincipals?$expand=appRoleAssignments&$filter=appId eq '' @
                [CHR 0x27] @ ''44444444-4444-4444-4444-444444444444'' @ [CHR 0x27]
         then Inr [idleApp] else Inr []),
       get_servicePrincipal = (\<lambda>u.
         if u = ''https://graph/v1.0/servicePrincipals/R1'' then Inr sampleResource
         else Inl ''Request failed with status code 404'') \<rparr>"

definition byObjectId :: "string \<Rightarrow> Options" where
  "byObjectId v = \<lparr> appId = None, appDisplayName = None, appObjectId = Some v \<rparr>"

definition byAppId :: "string \<Rightarrow> Options" where
  "byAppId v = \<lparr> appId = Some v, appDisplayName = None, appObjectId = None \<rparr>"

definition byDisplayName :: "string \<Rightarrow> Options" where
  "byDisplayName v = \<lparr> appId = None, appDisplayName = Some v, appObjectId = None \<rparr>"

text \<open>Options that break the option set: two selectors, and none.\<close>

definition twoSelectors :: Options where
  "twoSelectors =
     \<lparr> appId = Some ''44444444-4444-4444-4444-444444444444'',
       appDisplayName = Some ''Contoso'', appObjectId = None \<rparr>"

definition noSelector :: Options where
  "noSelector = \<lparr> appId = None, appDisplayName = None, appObjectId = None \<rparr>"

section \<open>Unfolding the sample directory\<close>

lemmas sample_defs = sampleDirectory_def byObjectId_def byAppId_def byDisplayName_def
  firstApp_def secondApp_def idleApp_def sampleResource_def sampleRole_def
  sampleAssignment_def strayAssignment_def lostAssignment_def sampleRecord_def

section \<open>The assignment joiner\<close>

lemma joinCallback_results:
  "joinCallback resources a results = results @ joinCallback resources a []"
  by (simp add: joinCallback_def split: option.splits)

lemma fold_joinCallback:
  "fold (joinCallback resources) as results =
     results @ concat (map (\<lambda>a. joinCallback resources a []) as)"
proof (induction as arbitrary: results)
  case Nil
  show ?case by simp
next
  case (Cons a as)
  have "fold (joinCallback resources) (a # as) results =
          fold (joinCallback resources) as (joinCallback resources a results)"
    by simp
  also have "\<dots> = joinCallback resources a results @
                   concat (map (\<lambda>a. joinCallback resources a []) as)"
    by (rule Cons.IH)
  also have "joinCallback resources a results = results @ joinCallback resources a []"
    by (rule joinCallback_results)
  finally show ?case by simp
qed

lemma joinAssignments_concat:
  "joinAssignments as resources = concat (map (\<lambda>a. joinCallback resources a []) as)"
  by (simp add: joinAssignments_def fold_joinCallback)

lemma joinCallback_emits:
  assumes "e \<in> set (joinCallback resources a [])"
  shows "\<exists>resource appRole.
           find (\<lambda>r. sp_id r = AppRoleAssignment.resourceId a) resources = Some resource \<and>
           find (\<lambda>r. role_id r = AppRoleAssignment.appRoleId a) (appRoles resource) = Some appRole \<and>
           e = \<lparr> appRoleId = AppRoleAssignment.appRoleId a,
                 resourceDisplayName = AppRoleAssignment.resourceDisplayName a,
                 resourceId = AppRoleAssignment.resourceId a,
                 roleId = role_id appRole,
                 roleName = role_value appRole,
                 created = createdDateTime a,
                 deleted = deletedDateTime a \<rparr>"
proof (cases "find (\<lambda>r. sp_id r = AppRoleAssignment.resourceId a) resources")
  case None
  with assms show ?thesis by (simp add: joinCallback_def)
next
  case (Some resource)
  note res = this
  show ?thesis
  proof (cases "find (\<lambda>r. role_id r = AppRoleAssignment.appRoleId a) (appRoles resource)")
    case None
    with assms res show ?thesis by (simp add: joinCallback_def)
  next
    case (Some appRole)
    with assms res show ?thesis by (simp add: joinCallback_def)
  qed
qed

lemma find_Some_mem: "find P xs = Some x \<Longrightarrow> x \<in> set xs \<and> P x"
  by (induction xs) (auto split: if_splits)

text \<open>
  Claim C1. Every record the join emits comes from an assignment of the list, from
  the first resource of the list whose id is the assignment's \<open>resourceId\<close>, and
  from the first role of that resource whose id is the assignment's
  \<open>appRoleId\<close>: its \<open>roleId\<close> is that \<open>appRoleId\<close>, its \<open>resourceId\<close> is the id
  of that resource, and its \<open>roleName\<close> is the value of that role. So no record
  refers to a resource or a role that the resource list does not hold.
\<close>

theorem join_records_come_from_matches:
  assumes "e \<in> set (joinAssignments as resources)"
  shows "\<exists>a \<in> set as. \<exists>resource \<in> set resources. \<exists>appRole \<in> set (appRoles resource).
           find (\<lambda>r. sp_id r = AppRoleAssignment.resourceId a) resources = Some resource \<and>
           find (\<lambda>r. role_id r = AppRoleAssignment.appRoleId a) (appRoles resource) = Some appRole \<and>
           roleId e = AppRoleAssignment.appRoleId a \<and>
           EnrichedAssignment.appRoleId e = AppRoleAssignment.appRoleId a \<and>
           EnrichedAssignment.resourceId e = sp_id resource \<and>
           sp_id resource = AppRoleAssignment.resourceId a \<and>
           role_id appRole = AppRoleAssignment.appRoleId a \<and>
           roleName e = role_value appRole"
proof -
  from assms obtain a where a: "a \<in> set as" and e: "e \<in> set (joinCallback resources a [])"
    by (auto simp: joinAssignments_concat)
  from joinCallback_emits [OF e] obtain resource appRole where
    r: "find (\<lambda>r. sp_id r = AppRoleAssignment.resourceId a) resources = Some resource" and
    p: "find (\<lambda>r. role_id r = AppRoleAssignment.appRoleId a) (appRoles resource) = Some appRole" and
    eq: "e = \<lparr> appRoleId = AppRoleAssignment.appRoleId a,
                 resourceDisplayName = AppRoleAssignment.resourceDisplayName a,
                 resourceId = AppRoleAssignment.resourceId a,
                 roleId = role_id appRole,
                 roleName = role_value appRole,
                 created = createdDateTime a,
                 deleted = deletedDateTime a \<rparr>"
    by blast
  from find_Some_mem [OF r] have rm: "resource \<in> set resources"
    and rid: "sp_id resource = AppRoleAssignment.resourceId a" by simp_all
  from find_Some_mem [OF p] have pm: "appRole \<in> set (appRoles resource)"
    and pid: "role_id appRole = AppRoleAssignment.appRoleId a" by simp_all
  have "roleId e = AppRoleAssignment.appRoleId a"
    and "EnrichedAssignment.appRoleId e = AppRoleAssignment.appRoleId a"
    and "EnrichedAssignment.resourceId e = sp_id resource"
    and "roleName e = role_value appRole"
    using eq rid pid by simp_all
  with a rm pm r p rid pid show ?thesis by blast
qed

lemma sample_join: "joinAssignments [strayAssignment, sampleAssignment] [sampleResource] = [sampleRecord]"
  by (simp add: joinAssignments_def joinCallback_def strayAssignment_def sampleAssignment_def
      sampleResource_def sampleRole_def sampleRecord_def)

theorem join_records_come_from_matches_witness:
  "sampleRecord \<in> set (joinAssignments [strayAssignment, sampleAssignment] [sampleResource]) \<and>
   (\<exists>a \<in> set [strayAssignment, sampleAssignment]. \<exists>resource \<in> set [sampleResource].
      \<exists>appRole \<in> set (appRoles resource).
        roleId sampleRecord = AppRoleAssignment.appRoleId a \<and>
        EnrichedAssignment.resourceId sampleRecord = sp_id resource \<and>
        roleName sampleRecord = role_value appRole \<and>
        role_id appRole = AppRoleAssignment.appRoleId a)"
proof -
  have h: "sampleRecord \<in> set (joinAssignments [strayAssignment, sampleAssignment] [sampleResource])"
    by (simp add: sample_join)
  from join_records_come_from_matches [OF h] h show ?thesis by blast
qed

lemma joinCallback_source:
  "joinCallback resources a [] = [] \<or>
   (\<exists>e. joinCallback resources a [] = [e] \<and> sourceOf e = a)"
  by (simp add: joinCallback_def sourceOf_def split: option.splits)

lemma subseq_emitted:
  "subseq (map sourceOf (concat (map (\<lambda>a. joinCallback resources a []) as))) as"
proof (induction as)
  case Nil
  show ?case by simp
next
  case (Cons a as)
  from joinCallback_source [of resources a] show ?case
  proof
    assume "joinCallback resources a [] = []"
    with Cons.IH show ?thesis by (simp add: list_emb_Cons)
  next
    assume "\<exists>e. joinCallback resources a [] = [e] \<and> sourceOf e = a"
    then obtain e where "joinCallback resources a [] = [e]" "sourceOf e = a" by blast
    with Cons.IH show ?thesis by simp
  qed
qed

lemma find_None_image: "(find (\<lambda>r. f r = k) xs = None) = (k \<notin> f ` set xs)"
  by (induction xs) auto

lemma joinCallback_matched:
  "map sourceOf (joinCallback resources a []) = (if matched resources a then [a] else [])"
proof (cases "find (\<lambda>r. sp_id r = AppRoleAssignment.resourceId a) resources")
  case None
  then show ?thesis by (simp add: joinCallback_def matched_def)
next
  case (Some resource)
  note res = this
  show ?thesis
  proof (cases "find (\<lambda>r. role_id r = AppRoleAssignment.appRoleId a) (appRoles resource)")
    case None
    then have n: "AppRoleAssignment.appRoleId a \<notin> role_id ` set (appRoles resource)"
      by (simp add: find_None_image)
    from res None n show ?thesis
      by (simp add: joinCallback_def matched_def)
  next
    case (Some appRole)
    then have "AppRoleAssignment.appRoleId a \<in> role_id ` set (appRoles resource)"
      using find_None_image [of role_id "AppRoleAssignment.appRoleId a" "appRoles resource"]
      by simp
    with res Some show ?thesis
      by (simp add: joinCallback_def matched_def sourceOf_def)
  qed
qed

lemma join_emits_the_matched:
  "map sourceOf (joinAssignments as resources) = filter (matched resources) as"
proof (induction as)
  case Nil
  show ?case by (simp add: joinAssignments_concat)
next
  case (Cons a as)
  have "map sourceOf (joinAssignments (a # as) resources) =
          map sourceOf (joinCallback resources a []) @ map sourceOf (joinAssignments as resources)"
    by (simp add: joinAssignments_concat)
  with Cons.IH show ?case by (simp add: joinCallback_matched)
qed

lemma matched_iff_not_dropped:
  "(\<not> matched resources a) =
     ((\<forall>r \<in> set resources. sp_id r \<noteq> AppRoleAssignment.resourceId a) \<or>
      (\<exists>resource. find (\<lambda>r. sp_id r = AppRoleAssignment.resourceId a) resources = Some resource \<and>
         (\<forall>role \<in> set (appRoles resource). role_id role \<noteq> AppRoleAssignment.appRoleId a)))"
proof (cases "find (\<lambda>r. sp_id r = AppRoleAssignment.resourceId a) resources")
  case None
  then have "\<forall>r \<in> set resources. sp_id r \<noteq> AppRoleAssignment.resourceId a"
    by (simp add: find_None_iff)
  with None show ?thesis by (simp add: matched_def)
next
  case (Some resource)
  then have "\<exists>r \<in> set resources. sp_id r = AppRoleAssignment.resourceId a"
    using find_Some_mem by fastforce
  with Some show ?thesis by (force simp: matched_def image_iff)
qed

text \<open>
  Claim C4. Read back as assignments, the output is the input list with the
  dropped assignments taken out and nothing else changed: every matched
  assignment gives one record, in the position the assignments have among
  themselves, and a dropped one gives none. The output is the concatenation, in
  the order of the assignments, of what the callback emits for each of them, and
  so a subsequence of the input. The order of the resources plays no part.
\<close>

theorem join_keeps_assignment_order:
  "map sourceOf (joinAssignments as resources) = filter (matched resources) as \<and>
   length (joinAssignments as resources) = length (filter (matched resources) as) \<and>
   joinAssignments as resources = concat (map (\<lambda>a. joinCallback resources a []) as) \<and>
   subseq (map sourceOf (joinAssignments as resources)) as"
proof -
  have m: "map sourceOf (joinAssignments as resources) = filter (matched resources) as"
    by (rule join_emits_the_matched)
  from arg_cong [OF m, of length]
  have l: "length (joinAssignments as resources) = length (filter (matched resources) as)"
    by simp
  have c: "joinAssignments as resources = concat (map (\<lambda>a. joinCallback resources a []) as)"
    by (rule joinAssignments_concat)
  have s: "subseq (map sourceOf (joinAssignments as resources)) as"
    by (simp add: joinAssignments_concat subseq_emitted)
  from m l c s show ?thesis by blast
qed

lemma joinCallback_dropped:
  assumes "(\<forall>r \<in> set resources. sp_id r \<noteq> AppRoleAssignment.resourceId a) \<or>
           (\<exists>resource. find (\<lambda>r. sp_id r = AppRoleAssignment.resourceId a) resources = Some resource \<and>
              (\<forall>role \<in> set (appRoles resource). role_id role \<noteq> AppRoleAssignment.appRoleId a))"
  shows "joinCallback resources a results = results"
  using assms
  by (auto simp: joinCallback_def find_None_iff split: option.splits dest: find_Some_mem)

text \<open>
  Claim C5. An assignment whose \<open>resourceId\<close> is the id of no resource, or whose
  \<open>appRoleId\<close> is the id of no role of the matched resource, emits nothing, and
  the join of a list that holds it is the join of the list without it. The join
  is a total function to lists: it has no error to raise.
\<close>

theorem join_drops_unmatched_silently:
  assumes "(\<forall>r \<in> set resources. sp_id r \<noteq> AppRoleAssignment.resourceId a) \<or>
           (\<exists>resource. find (\<lambda>r. sp_id r = AppRoleAssignment.resourceId a) resources = Some resource \<and>
              (\<forall>role \<in> set (appRoles resource). role_id role \<noteq> AppRoleAssignment.appRoleId a))"
  shows "joinAssignments [a] resources = [] \<and>
         joinAssignments (before @ a # after) resources = joinAssignments (before @ after) resources"
  using joinCallback_dropped [OF assms]
  by (simp add: joinAssignments_def)

theorem join_drops_unmatched_silently_witness:
  "find (\<lambda>r. sp_id r = AppRoleAssignment.resourceId strayAssignment) [sampleResource]
     = Some sampleResource \<and>
   AppRoleAssignment.appRoleId strayAssignment \<notin> role_id ` set (appRoles sampleResource) \<and>
   joinAssignments [strayAssignment] [sampleResource] = [] \<and>
   joinAssignments ([sampleAssignment] @ strayAssignment # [sampleAssignment]) [sampleResource]
     = joinAssignments ([sampleAssignment] @ [sampleAssignment]) [sampleResource]"
proof -
  have h: "(\<forall>r \<in> set [sampleResource].
              sp_id r \<noteq> AppRoleAssignment.resourceId strayAssignment) \<or>
           (\<exists>resource.
              find (\<lambda>r. sp_id r = AppRoleAssignment.resourceId strayAssignment) [sampleResource]
                = Some resource \<and>
              (\<forall>role \<in> set (appRoles resource).
                 role_id role \<noteq> AppRoleAssignment.appRoleId strayAssignment))"
    by (simp add: sample_defs)
  have f: "find (\<lambda>r. sp_id r = AppRoleAssignment.resourceId strayAssignment) [sampleResource]
             = Some sampleResource"
    by (simp add: sample_defs)
  have n: "AppRoleAssignment.appRoleId strayAssignment \<notin> role_id ` set (appRoles sampleResource)"
    by (simp add: sample_defs)
  from join_drops_unmatched_silently [OF h, of "[sampleAssignment]" "[sampleAssignment]"] f n
  show ?thesis by simp
qed

section \<open>The resource fan-out\<close>

subsection \<open>\<^verbatim>\<open>Promise.all\<close>\<close>

lemma promise_all_find:
  "promise_all ts =
     (case find isl ts of None \<Rightarrow> Inr (map projr ts) | Some t \<Rightarrow> Inl (projl t))"
  by (induction ts rule: promise_all.induct) (auto split: option.splits sum.splits)

lemma promise_all_map_Inr: "promise_all (map Inr xs) = Inr xs"
  by (induction xs) simp_all

lemma promise_all_Inr_D: "promise_all ts = Inr xs \<Longrightarrow> ts = map Inr xs"
  by (induction ts arbitrary: xs rule: promise_all.induct) (auto split: sum.splits)

lemma promise_all_Inr_iff: "promise_all ts = Inr xs \<longleftrightarrow> ts = map Inr xs"
  using promise_all_map_Inr promise_all_Inr_D by metis

lemma promise_all_Inl_mem: "promise_all ts = Inl e \<Longrightarrow> Inl e \<in> set ts"
  by (induction ts rule: promise_all.induct) (auto split: sum.splits)

lemma promise_all_fails: "Inl e \<in> set ts \<Longrightarrow> \<exists>e'. promise_all ts = Inl e'"
  by (induction ts rule: promise_all.induct) (auto split: sum.splits)

subsection \<open>One fetch per assignment\<close>

lemma fetchResources_fst:
  "fst (fetchResources d as) =
     promise_all (map (\<lambda>a. awaited (get_servicePrincipal d
        (this_resource d @ ''/v1.0/servicePrincipals/'' @ AppRoleAssignment.resourceId a))) as)"
  by (simp add: fetchResources_def getServicePrincipal_def Let_def comp_def)

lemma fetchResources_snd:
  "snd (fetchResources d as) =
     map (\<lambda>a. this_resource d @ ''/v1.0/servicePrincipals/'' @ AppRoleAssignment.resourceId a) as"
  by (induction as) (simp_all add: fetchResources_def getServicePrincipal_def Let_def)

lemma getServicePrincipal_fst:
  "fst (getServicePrincipal d spId) =
     awaited (get_servicePrincipal d (this_resource d @ ''/v1.0/servicePrincipals/'' @ spId))"
  by (simp add: getServicePrincipal_def Let_def)

lemma enrichAssignments_snd: "snd (enrichAssignments d as) = snd (fetchResources d as)"
  by (simp add: enrichAssignments_def split: prod.splits sum.splits)

lemma enrichAssignments_fst:
  "fst (enrichAssignments d as) =
     (case fst (fetchResources d as) of
        Inl err \<Rightarrow> Inl err
      | Inr resources \<Rightarrow> Inr (joinAssignments as resources))"
  by (simp add: enrichAssignments_def split: prod.splits sum.splits)

lemma commandAction_resolved:
  assumes "getAppRoleAssignments d options = (Inr as, sent)"
  shows "commandAction d options =
           (fst (enrichAssignments d as), sent @ snd (enrichAssignments d as))"
  using assms by (simp add: commandAction_def split: prod.splits)

lemma commandAction_unresolved:
  assumes "getAppRoleAssignments d options = (Inl err, sent)"
  shows "commandAction d options = (Inl err, sent)"
  using assms by (simp add: commandAction_def)

text \<open>
  Claim C6. The requests of the fan-out are one fetch per assignment, in the order
  of the assignments, duplicates included. When every fetch resolves, the join
  runs on the complete list of the fetched resources. When some fetch is
  rejected, the action fails with the error of a rejected fetch and logs no
  record. The action, once it has the assignments, issues these requests after
  the locator's and ends with this outcome.
\<close>

theorem fan_out_all_or_nothing:
  "snd (enrichAssignments d as) =
     concat (map (\<lambda>a. snd (getServicePrincipal d (AppRoleAssignment.resourceId a))) as) \<and>
   snd (enrichAssignments d as) =
     map (\<lambda>a. this_resource d @ ''/v1.0/servicePrincipals/'' @ AppRoleAssignment.resourceId a) as \<and>
   (\<forall>resources.
      map (\<lambda>a. fst (getServicePrincipal d (AppRoleAssignment.resourceId a))) as = map Inr resources
      \<longrightarrow> fst (enrichAssignments d as) = Inr (joinAssignments as resources)) \<and>
   ((\<exists>a \<in> set as. isl (fst (getServicePrincipal d (AppRoleAssignment.resourceId a))))
      \<longrightarrow> (\<exists>a \<in> set as. \<exists>err.
             fst (getServicePrincipal d (AppRoleAssignment.resourceId a)) = Inl err \<and>
             fst (enrichAssignments d as) = Inl err)) \<and>
   (\<forall>sent. getAppRoleAssignments d options = (Inr as, sent)
      \<longrightarrow> commandAction d options =
            (fst (enrichAssignments d as), sent @ snd (enrichAssignments d as)))"
proof (intro conjI allI impI)
  show "snd (enrichAssignments d as) =
     concat (map (\<lambda>a. snd (getServicePrincipal d (AppRoleAssignment.resourceId a))) as)"
    by (simp add: enrichAssignments_snd fetchResources_def Let_def comp_def)
  show "snd (enrichAssignments d as) =
     map (\<lambda>a. this_resource d @ ''/v1.0/servicePrincipals/'' @ AppRoleAssignment.resourceId a) as"
    by (simp add: enrichAssignments_snd fetchResources_snd)
next
  fix resources
  assume "map (\<lambda>a. fst (getServicePrincipal d (AppRoleAssignment.resourceId a))) as
            = map Inr resources"
  then have "fst (fetchResources d as) = Inr resources"
    by (simp add: fetchResources_fst getServicePrincipal_fst promise_all_Inr_iff)
  then show "fst (enrichAssignments d as) = Inr (joinAssignments as resources)"
    by (simp add: enrichAssignments_fst)
next
  assume "\<exists>a \<in> set as. isl (fst (getServicePrincipal d (AppRoleAssignment.resourceId a)))"
  then obtain a e where "a \<in> set as"
    and "fst (getServicePrincipal d (AppRoleAssignment.resourceId a)) = Inl e"
    by (auto simp: isl_def)
  then have "Inl e \<in> set (map (\<lambda>a. fst (getServicePrincipal d (AppRoleAssignment.resourceId a))) as)"
    by force
  from promise_all_fails [OF this] obtain err where
    p: "promise_all (map (\<lambda>a. fst (getServicePrincipal d (AppRoleAssignment.resourceId a))) as)
          = Inl err"
    by blast
  then have f: "fst (fetchResources d as) = Inl err"
    by (simp add: fetchResources_fst getServicePrincipal_fst)
  from promise_all_Inl_mem [OF p] obtain b where "b \<in> set as"
    and "fst (getServicePrincipal d (AppRoleAssignment.resourceId b)) = Inl err"
    by auto
  with f show "\<exists>a \<in> set as. \<exists>err.
             fst (getServicePrincipal d (AppRoleAssignment.resourceId a)) = Inl err \<and>
             fst (enrichAssignments d as) = Inl err"
    by (auto simp: enrichAssignments_fst)
next
  fix sent
  assume "getAppRoleAssignments d options = (Inr as, sent)"
  then show "commandAction d options =
            (fst (enrichAssignments d as), sent @ snd (enrichAssignments d as))"
    by (rule commandAction_resolved)
qed

subsection \<open>One fetch per distinct resource id\<close>

lemma find_filter_neq: "\<not> Q x \<Longrightarrow> find Q (filter (\<lambda>y. y \<noteq> x) xs) = find Q xs"
  by (induction xs) auto

lemma find_distinctIds: "find Q (distinctIds xs) = find Q xs"
proof (induction xs rule: distinctIds.induct)
  case 1
  show ?case by simp
next
  case (2 x xs)
  then show ?case by (simp add: find_filter_neq)
qed

lemma set_distinctIds: "set (distinctIds xs) = set xs"
  by (induction xs rule: distinctIds.induct) auto

lemma distinct_distinctIds: "distinct (distinctIds xs)"
  by (induction xs rule: distinctIds.induct) (auto simp: set_distinctIds)

lemma lookupById_find: "lookupById resources x = find (\<lambda>r. sp_id r = x) resources"
  by (induction resources) (auto simp: lookupById_def)

text \<open>
  When every fetched resource carries the id it was fetched by, as the directory
  answers, keying the lookup by the requested id gives the same lookup.
\<close>

lemma lookupById_requested:
  "list_all2 (\<lambda>x r. sp_id r = x) ids resources \<Longrightarrow>
   map_of (zip ids resources) = lookupById resources"
  by (induction rule: list_all2_induct) (auto simp: lookupById_def)

lemma find_map_option: "find P (map f xs) = map_option f (find (\<lambda>x. P (f x)) xs)"
  by (induction xs) simp_all

lemma joinCallback_lookup_eq:
  "byId (AppRoleAssignment.resourceId a) =
     find (\<lambda>r. sp_id r = AppRoleAssignment.resourceId a) resources \<Longrightarrow>
   joinCallback_lookup byId a results = joinCallback resources a results"
  by (simp add: joinCallback_lookup_def joinCallback_def)

lemma joinAssignments_lookup_eq:
  assumes "\<And>x. byId x = find (\<lambda>r. sp_id r = x) resources"
  shows "joinAssignments_lookup as byId = joinAssignments as resources"
proof -
  have "joinCallback_lookup byId = joinCallback resources"
    by (intro ext) (simp add: joinCallback_lookup_eq assms)
  then show ?thesis by (simp add: joinAssignments_lookup_def joinAssignments_def)
qed

lemma fetchResources_distinct_fst:
  "fst (fetchResources_distinct d as) =
     promise_all (map (\<lambda>x. fst (getServicePrincipal d x))
        (distinctIds (map AppRoleAssignment.resourceId as)))"
  by (simp add: fetchResources_distinct_def Let_def comp_def)

lemma fetchResources_fst':
  "fst (fetchResources d as) =
     promise_all (map (\<lambda>x. fst (getServicePrincipal d x)) (map AppRoleAssignment.resourceId as))"
  by (simp add: fetchResources_def Let_def comp_def)

lemma enrichAssignments_distinct_fst:
  "fst (enrichAssignments_distinct d as) =
     (case fst (fetchResources_distinct d as) of
        Inl err \<Rightarrow> Inl err
      | Inr resources \<Rightarrow> Inr (joinAssignments_lookup as (lookupById resources)))"
  by (cases "fetchResources_distinct d as"; cases "fst (fetchResources_distinct d as)")
     (simp_all add: enrichAssignments_distinct_def)

lemma distinct_fetch_same_outcome:
  "fst (enrichAssignments_distinct d as) = fst (enrichAssignments d as)"
proof -
  define f where "f = (\<lambda>x. fst (getServicePrincipal d x))"
  define ids where "ids = map AppRoleAssignment.resourceId as"
  have findf: "find isl (map f (distinctIds ids)) = find isl (map f ids)"
    by (simp add: find_map_option find_distinctIds)
  have lhs: "fst (fetchResources_distinct d as) = promise_all (map f (distinctIds ids))"
    by (simp add: fetchResources_distinct_fst f_def ids_def)
  have rhs: "fst (fetchResources d as) = promise_all (map f ids)"
    by (simp add: fetchResources_fst' f_def ids_def)
  show ?thesis
  proof (cases "find isl (map f ids)")
    case (Some t)
    with findf lhs rhs
    have "fst (fetchResources_distinct d as) = Inl (projl t)"
      and "fst (fetchResources d as) = Inl (projl t)"
      by (simp_all add: promise_all_find)
    then show ?thesis
      by (simp add: enrichAssignments_fst enrichAssignments_distinct_fst)
  next
    case None
    with findf lhs rhs
    have l: "fst (fetchResources_distinct d as) = Inr (map projr (map f (distinctIds ids)))"
      and r: "fst (fetchResources d as) = Inr (map projr (map f ids))"
      by (simp_all add: promise_all_find)
    have "lookupById (map projr (map f (distinctIds ids))) x =
            find (\<lambda>r. sp_id r = x) (map projr (map f ids))" for x
      by (simp add: lookupById_find find_map_option find_distinctIds)
    then have "joinAssignments_lookup as (lookupById (map projr (map f (distinctIds ids)))) =
            joinAssignments as (map projr (map f ids))"
      by (rule joinAssignments_lookup_eq)
    with l r show ?thesis
      by (simp add: enrichAssignments_fst enrichAssignments_distinct_fst)
  qed
qed

lemma getServicePrincipal_urls:
  "concat (map (\<lambda>x. snd (getServicePrincipal d x)) ids) =
     map (\<lambda>x. this_resource d @ ''/v1.0/servicePrincipals/'' @ x) ids"
  by (induction ids) (simp_all add: getServicePrincipal_def Let_def)

lemma distinct_fetch_requests:
  "snd (enrichAssignments_distinct d as) =
     map (\<lambda>x. this_resource d @ ''/v1.0/servicePrincipals/'' @ x)
       (distinctIds (map AppRoleAssignment.resourceId as))"
proof -
  have "snd (enrichAssignments_distinct d as) = snd (fetchResources_distinct d as)"
    by (cases "fetchResources_distinct d as"; cases "fst (fetchResources_distinct d as)")
       (simp_all add: enrichAssignments_distinct_def)
  then show ?thesis
    by (simp add: fetchResources_distinct_def Let_def comp_def getServicePrincipal_urls)
qed

text \<open>
  Claim C3. Fetching each distinct resource id once and joining through the
  lookup keyed by resource id gives the outcome of the action as implemented
  (the same records in the same order, or the same failure). The requests are
  then one per distinct resource id, none repeated and none missing.
\<close>

theorem distinct_fetch_gives_the_same_join:
  "fst (enrichAssignments_distinct d as) = fst (enrichAssignments d as) \<and>
   snd (enrichAssignments_distinct d as) =
     map (\<lambda>x. this_resource d @ ''/v1.0/servicePrincipals/'' @ x)
       (distinctIds (map AppRoleAssignment.resourceId as)) \<and>
   distinct (distinctIds (map AppRoleAssignment.resourceId as)) \<and>
   set (distinctIds (map AppRoleAssignment.resourceId as)) =
     set (map AppRoleAssignment.resourceId as)"
  by (simp only: distinct_fetch_same_outcome distinct_fetch_requests distinct_distinctIds
      set_distinctIds simp_thms)

lemma sample_this_resource: "this_resource sampleDirectory = ''https://graph''"
  by (simp add: sampleDirectory_def)

lemma sample_fetch_R1:
  "fst (getServicePrincipal sampleDirectory ''R1'') = Inr sampleResource"
  by (simp add: getServicePrincipal_def sampleDirectory_def)

lemma sample_fetch_R9:
  "fst (getServicePrincipal sampleDirectory ''R9'') = Inl (Rejected ''Request failed with status code 404'')"
  by (simp add: getServicePrincipal_def sampleDirectory_def)

lemma sample_resourceIds:
  "AppRoleAssignment.resourceId sampleAssignment = ''R1''"
  "AppRoleAssignment.resourceId strayAssignment = ''R1''"
  "AppRoleAssignment.resourceId lostAssignment = ''R9''"
  by (simp_all add: sample_defs)

lemma sample_by_object_id:
  "getAppRoleAssignments sampleDirectory (byObjectId ''33333333-3333-3333-3333-333333333333'') =
     (Inr [sampleAssignment, lostAssignment],
      [''https://graph/v1.0/servicePrincipals/33333333-3333-3333-3333-333333333333/appRoleAssignments''])"
  by (simp add: getAppRoleAssignments_def getSPAppRoleAssignments_def sampleDirectory_def
      byObjectId_def)

theorem fan_out_all_or_nothing_witness:
  "getAppRoleAssignments sampleDirectory (byObjectId ''33333333-3333-3333-3333-333333333333'') =
     (Inr [sampleAssignment, lostAssignment],
      [''https://graph/v1.0/servicePrincipals/33333333-3333-3333-3333-333333333333/appRoleAssignments'']) \<and>
   isl (fst (getServicePrincipal sampleDirectory (AppRoleAssignment.resourceId lostAssignment))) \<and>
   commandAction sampleDirectory (byObjectId ''33333333-3333-3333-3333-333333333333'') =
     (Inl (Rejected ''Request failed with status code 404''),
      [''https://graph/v1.0/servicePrincipals/33333333-3333-3333-3333-333333333333/appRoleAssignments'',
       ''https://graph/v1.0/servicePrincipals/R1'',
       ''https://graph/v1.0/servicePrincipals/R9'']) \<and>
   map (\<lambda>a. fst (getServicePrincipal sampleDirectory (AppRoleAssignment.resourceId a)))
     [strayAssignment, sampleAssignment] = map Inr [sampleResource, sampleResource] \<and>
   fst (enrichAssignments sampleDirectory [strayAssignment, sampleAssignment]) = Inr [sampleRecord]"
proof -
  let ?o = "byObjectId ''33333333-3333-3333-3333-333333333333''"
  let ?bad = "[sampleAssignment, lostAssignment]"
  let ?good = "[strayAssignment, sampleAssignment]"
  note bad = fan_out_all_or_nothing [of sampleDirectory ?bad ?o]
  note good = fan_out_all_or_nothing [of sampleDirectory ?good ?o]
  have fails: "\<exists>a \<in> set ?bad.
      isl (fst (getServicePrincipal sampleDirectory (AppRoleAssignment.resourceId a)))"
    by (simp add: sample_resourceIds sample_fetch_R9)
  with bad obtain a err where a: "a \<in> set ?bad"
    and e: "fst (getServicePrincipal sampleDirectory (AppRoleAssignment.resourceId a)) = Inl err"
    and r: "fst (enrichAssignments sampleDirectory ?bad) = Inl err"
    by blast
  from a e have "err = Rejected ''Request failed with status code 404''"
    by (auto simp: sample_resourceIds sample_fetch_R1 sample_fetch_R9)
  with r have r': "fst (enrichAssignments sampleDirectory ?bad) =
      Inl (Rejected ''Request failed with status code 404'')"
    by simp
  from bad have "snd (enrichAssignments sampleDirectory ?bad) =
      map (\<lambda>a. this_resource sampleDirectory @ ''/v1.0/servicePrincipals/'' @
                AppRoleAssignment.resourceId a) ?bad"
    by blast
  then have s: "snd (enrichAssignments sampleDirectory ?bad) =
      [''https://graph/v1.0/servicePrincipals/R1'', ''https://graph/v1.0/servicePrincipals/R9'']"
    by (simp add: sample_resourceIds sample_this_resource)
  from bad sample_by_object_id have "commandAction sampleDirectory ?o =
      (fst (enrichAssignments sampleDirectory ?bad),
       [''https://graph/v1.0/servicePrincipals/33333333-3333-3333-3333-333333333333/appRoleAssignments'']
         @ snd (enrichAssignments sampleDirectory ?bad))"
    by blast
  with r' s have c: "commandAction sampleDirectory ?o =
     (Inl (Rejected ''Request failed with status code 404''),
      [''https://graph/v1.0/servicePrincipals/33333333-3333-3333-3333-333333333333/appRoleAssignments'',
       ''https://graph/v1.0/servicePrincipals/R1'',
       ''https://graph/v1.0/servicePrincipals/R9''])"
    by simp
  have m: "map (\<lambda>a. fst (getServicePrincipal sampleDirectory (AppRoleAssignment.resourceId a)))
     ?good = map Inr [sampleResource, sampleResource]"
    by (simp add: sample_resourceIds sample_fetch_R1)
  with good have "fst (enrichAssignments sampleDirectory ?good) =
      Inr (joinAssignments ?good [sampleResource, sampleResource])"
    by blast
  moreover have "joinAssignments ?good [sampleResource, sampleResource] = [sampleRecord]"
    by (simp add: joinAssignments_def joinCallback_def sample_defs)
  ultimately have j: "fst (enrichAssignments sampleDirectory ?good) = Inr [sampleRecord]"
    by simp
  from fails have i: "isl (fst (getServicePrincipal sampleDirectory
      (AppRoleAssignment.resourceId lostAssignment)))"
    by (simp add: sample_resourceIds sample_fetch_R1 sample_fetch_R9)
  from sample_by_object_id i c m j show ?thesis by blast
qed

section \<open>The application locator\<close>

lemma getSPAppRoleAssignments_snd: "length (snd (getSPAppRoleAssignments d spId)) = 1"
  by (simp add: getSPAppRoleAssignments_def Let_def)

lemma getServicePrincipalForApp_snd: "length (snd (getServicePrincipalForApp d q)) = 1"
  by (simp add: getServicePrincipalForApp_def Let_def)

lemma getAppRoleAssignments_by_object_id:
  assumes "truthy (appObjectId options)"
  shows "getAppRoleAssignments d options =
     (case fst (getSPAppRoleAssignments d (interpolate (appObjectId options))) of
        Inl err \<Rightarrow> Inl err
      | Inr value \<Rightarrow>
          if value = [] then Inl (Thrown ''no app role assignments found'') else Inr value,
      snd (getSPAppRoleAssignments d (interpolate (appObjectId options))))"
  using assms
  by (cases "getSPAppRoleAssignments d (interpolate (appObjectId options))";
      cases "fst (getSPAppRoleAssignments d (interpolate (appObjectId options)))")
     (simp_all add: getAppRoleAssignments_def)

lemma getAppRoleAssignments_by_filter:
  assumes "\<not> truthy (appObjectId options)"
  shows "getAppRoleAssignments d options =
     (case fst (getServicePrincipalForApp d (spMatchQuery d options)) of
        Inl err \<Rightarrow> Inl err
      | Inr [] \<Rightarrow> Inl (Thrown ''app registration not found'')
      | Inr (sp # others) \<Rightarrow> Inr (appRoleAssignments sp),
      snd (getServicePrincipalForApp d (spMatchQuery d options)))"
  using assms
  by (cases "getServicePrincipalForApp d (spMatchQuery d options)";
      cases "fst (getServicePrincipalForApp d (spMatchQuery d options))")
     (simp_all add: getAppRoleAssignments_def split: list.splits)

lemma getAppRoleAssignments_one_request: "length (snd (getAppRoleAssignments d options)) = 1"
  by (cases "truthy (appObjectId options)")
     (simp_all add: getAppRoleAssignments_by_object_id getAppRoleAssignments_by_filter
        getSPAppRoleAssignments_snd getServicePrincipalForApp_snd)

lemma awaited_not_Thrown [simp]: "awaited x \<noteq> Inl (Thrown m)"
  by (cases x) simp_all

lemma locator_request_defs:
  "fst (getSPAppRoleAssignments d spId) =
     awaited (get_assignments d
       (this_resource d @ ''/v1.0/servicePrincipals/'' @ spId @ ''/appRoleAssignments''))"
  "fst (getServicePrincipalForApp d q) =
     awaited (get_servicePrincipals d (this_resource d @
       ''/v1.0/servicePrincipals?$expand=appRoleAssignments&$filter='' @ q))"
  by (simp_all add: getSPAppRoleAssignments_def getServicePrincipalForApp_def Let_def)

lemma not_found_registration:
  "(fst (getAppRoleAssignments d options) = Inl (Thrown ''app registration not found'')) =
     (\<not> truthy (appObjectId options) \<and>
      fst (getServicePrincipalForApp d (spMatchQuery d options)) = Inr [])"
  by (cases "truthy (appObjectId options)")
     (auto simp: getAppRoleAssignments_by_object_id getAppRoleAssignments_by_filter
        locator_request_defs split: sum.splits list.splits)

lemma not_found_assignments:
  "(fst (getAppRoleAssignments d options) = Inl (Thrown ''no app role assignments found'')) =
     (truthy (appObjectId options) \<and>
      fst (getSPAppRoleAssignments d (interpolate (appObjectId options))) = Inr [])"
  by (cases "truthy (appObjectId options)")
     (auto simp: getAppRoleAssignments_by_object_id getAppRoleAssignments_by_filter
        locator_request_defs split: sum.splits list.splits)

lemma thrown_messages:
  assumes "fst (getAppRoleAssignments d options) = Inl (Thrown m)"
  shows "m = ''app registration not found'' \<or> m = ''no app role assignments found''"
  using assms
  by (cases "truthy (appObjectId options)")
     (auto simp: getAppRoleAssignments_by_object_id getAppRoleAssignments_by_filter
        locator_request_defs split: sum.splits list.splits if_splits)

lemma commandAction_stops:
  assumes "fst (getAppRoleAssignments d options) = Inl err"
  shows "commandAction d options = (Inl err, snd (getAppRoleAssignments d options))"
  using assms by (cases "getAppRoleAssignments d options") (simp add: commandAction_def)

text \<open>
  What the locator throws, as it is written. \<open>app registration not found\<close> is
  thrown exactly when no truthy \<open>appObjectId\<close> is given and the filter query
  resolves with no service principal; \<open>no app role assignments found\<close> is thrown
  exactly when a truthy \<open>appObjectId\<close> is given and the query of its assignments
  resolves with none. Nothing else is thrown, and a thrown message ends the
  action with the locator's single request as the only one issued: no resource
  is fetched and nothing is joined.
\<close>

theorem not_found_is_raised_by_the_locator:
  "((fst (getAppRoleAssignments d options) = Inl (Thrown ''app registration not found'')) =
      (\<not> truthy (appObjectId options) \<and>
       fst (getServicePrincipalForApp d (spMatchQuery d options)) = Inr [])) \<and>
   ((fst (getAppRoleAssignments d options) = Inl (Thrown ''no app role assignments found'')) =
      (truthy (appObjectId options) \<and>
       fst (getSPAppRoleAssignments d (interpolate (appObjectId options))) = Inr [])) \<and>
   (\<forall>m. fst (getAppRoleAssignments d options) = Inl (Thrown m) \<longrightarrow>
      (m = ''app registration not found'' \<or> m = ''no app role assignments found'') \<and>
      commandAction d options = (Inl (Thrown m), snd (getAppRoleAssignments d options)) \<and>
      length (snd (commandAction d options)) = 1)"
proof (intro conjI allI impI)
  show "(fst (getAppRoleAssignments d options) = Inl (Thrown ''app registration not found'')) =
      (\<not> truthy (appObjectId options) \<and>
       fst (getServicePrincipalForApp d (spMatchQuery d options)) = Inr [])"
    by (rule not_found_registration)
  show "(fst (getAppRoleAssignments d options) = Inl (Thrown ''no app role assignments found'')) =
      (truthy (appObjectId options) \<and>
       fst (getSPAppRoleAssignments d (interpolate (appObjectId options))) = Inr [])"
    by (rule not_found_assignments)
next
  fix m
  assume t: "fst (getAppRoleAssignments d options) = Inl (Thrown m)"
  then show "m = ''app registration not found'' \<or> m = ''no app role assignments found''"
    by (rule thrown_messages)
  from t show c: "commandAction d options = (Inl (Thrown m), snd (getAppRoleAssignments d options))"
    by (rule commandAction_stops)
  then show "length (snd (commandAction d options)) = 1"
    by (simp add: getAppRoleAssignments_one_request)
qed

lemma sample_filter_idle:
  "getAppRoleAssignments sampleDirectory (byAppId ''44444444-4444-4444-4444-444444444444'') =
     (Inr [],
      [''https://graph/v1.0/servicePrincipals?$expand=appRoleAssignments&$filter=appId eq '' @
         [CHR 0x27] @ ''44444444-4444-4444-4444-444444444444'' @ [CHR 0x27]])"
  by (simp add: getAppRoleAssignments_def getServicePrincipalForApp_def spMatchQuery_def
      sampleDirectory_def byAppId_def idleApp_def)

text \<open>
  Claim C2. A service principal with no assignment is to fail the action with
  \<open>no app role assignments found\<close>, whatever the selector. The branch of
  \<open>appObjectId\<close> does so (line 140); the branch of the filter query checks only
  that a service principal was found (line 152). So for the application id of
  fours, whose service principal has no assignment, the action raises nothing,
  fetches nothing and logs the empty list.
\<close>

theorem no_assignments_by_app_id_is_no_error:
  "fst (getServicePrincipalForApp sampleDirectory
          (spMatchQuery sampleDirectory (byAppId ''44444444-4444-4444-4444-444444444444'')))
     = Inr [idleApp] \<and>
   appRoleAssignments idleApp = [] \<and>
   commandAction sampleDirectory (byAppId ''44444444-4444-4444-4444-444444444444'') =
     (Inr [],
      [''https://graph/v1.0/servicePrincipals?$expand=appRoleAssignments&$filter=appId eq '' @
         [CHR 0x27] @ ''44444444-4444-4444-4444-444444444444'' @ [CHR 0x27]]) \<and>
   fst (commandAction sampleDirectory (byAppId ''44444444-4444-4444-4444-444444444444''))
     \<noteq> Inl (Thrown ''no app role assignments found'')"
proof -
  have 1: "fst (getServicePrincipalForApp sampleDirectory
          (spMatchQuery sampleDirectory (byAppId ''44444444-4444-4444-4444-444444444444'')))
     = Inr [idleApp]"
    by (simp add: getServicePrincipalForApp_def spMatchQuery_def sampleDirectory_def byAppId_def)
  have 2: "appRoleAssignments idleApp = []"
    by (simp add: idleApp_def)
  have 3: "commandAction sampleDirectory (byAppId ''44444444-4444-4444-4444-444444444444'') =
     (Inr [],
      [''https://graph/v1.0/servicePrincipals?$expand=appRoleAssignments&$filter=appId eq '' @
         [CHR 0x27] @ ''44444444-4444-4444-4444-444444444444'' @ [CHR 0x27]])"
    by (simp add: commandAction_def sample_filter_idle enrichAssignments_def fetchResources_def
        joinAssignments_def)
  from 1 2 3 show ?thesis by simp
qed

lemma sample_scenario_A:
  "fst (getSPAppRoleAssignments sampleDirectory
          (interpolate (appObjectId (byObjectId ''11111111-1111-1111-1111-111111111111''))))
     = Inr []"
  by (simp add: getSPAppRoleAssignments_def sampleDirectory_def byObjectId_def)

lemma sample_scenario_B:
  "fst (getServicePrincipalForApp sampleDirectory
          (spMatchQuery sampleDirectory (byAppId ''22222222-2222-2222-2222-222222222222'')))
     = Inr []"
  by (simp add: getServicePrincipalForApp_def spMatchQuery_def sampleDirectory_def byAppId_def)

theorem not_found_is_raised_by_the_locator_witness:
  "fst (getAppRoleAssignments sampleDirectory (byObjectId ''11111111-1111-1111-1111-111111111111''))
     = Inl (Thrown ''no app role assignments found'') \<and>
   commandAction sampleDirectory (byObjectId ''11111111-1111-1111-1111-111111111111'') =
     (Inl (Thrown ''no app role assignments found''),
      [''https://graph/v1.0/servicePrincipals/11111111-1111-1111-1111-111111111111/appRoleAssignments'']) \<and>
   fst (getAppRoleAssignments sampleDirectory (byAppId ''22222222-2222-2222-2222-222222222222''))
     = Inl (Thrown ''app registration not found'') \<and>
   commandAction sampleDirectory (byAppId ''22222222-2222-2222-2222-222222222222'') =
     (Inl (Thrown ''app registration not found''),
      [''https://graph/v1.0/servicePrincipals?$expand=appRoleAssignments&$filter=appId eq '' @
         [CHR 0x27] @ ''22222222-2222-2222-2222-222222222222'' @ [CHR 0x27]])"
proof -
  let ?a = "byObjectId ''11111111-1111-1111-1111-111111111111''"
  let ?b = "byAppId ''22222222-2222-2222-2222-222222222222''"
  note A = not_found_is_raised_by_the_locator [of sampleDirectory ?a]
  note B = not_found_is_raised_by_the_locator [of sampleDirectory ?b]
  have ta: "truthy (appObjectId ?a)" and tb: "\<not> truthy (appObjectId ?b)"
    by (simp_all add: byObjectId_def byAppId_def)
  from A ta sample_scenario_A
  have a1: "fst (getAppRoleAssignments sampleDirectory ?a)
              = Inl (Thrown ''no app role assignments found'')"
    by blast
  with A have a2: "commandAction sampleDirectory ?a =
      (Inl (Thrown ''no app role assignments found''), snd (getAppRoleAssignments sampleDirectory ?a))"
    by blast
  have a3: "snd (getAppRoleAssignments sampleDirectory ?a) =
      [''https://graph/v1.0/servicePrincipals/11111111-1111-1111-1111-111111111111/appRoleAssignments'']"
    by (simp add: getAppRoleAssignments_def getSPAppRoleAssignments_def sampleDirectory_def
        byObjectId_def)
  from B tb sample_scenario_B
  have b1: "fst (getAppRoleAssignments sampleDirectory ?b)
              = Inl (Thrown ''app registration not found'')"
    by blast
  with B have b2: "commandAction sampleDirectory ?b =
      (Inl (Thrown ''app registration not found''), snd (getAppRoleAssignments sampleDirectory ?b))"
    by blast
  have b3: "snd (getAppRoleAssignments sampleDirectory ?b) =
      [''https://graph/v1.0/servicePrincipals?$expand=appRoleAssignments&$filter=appId eq '' @
         [CHR 0x27] @ ''22222222-2222-2222-2222-222222222222'' @ [CHR 0x27]]"
    by (simp add: getAppRoleAssignments_def getServicePrincipalForApp_def spMatchQuery_def
        sampleDirectory_def byAppId_def)
  from a1 a2 a3 b1 b2 b3 show ?thesis by simp
qed

text \<open>
  Claim C7. When the filter query resolves with more than one service principal,
  the locator returns the assignments embedded in the first one and raises
  nothing; the action goes on with exactly these.
\<close>

theorem first_service_principal_is_used:
  assumes "\<not> truthy (appObjectId options)"
    and "fst (getServicePrincipalForApp d (spMatchQuery d options)) = Inr (sp # sp' # others)"
  shows "fst (getAppRoleAssignments d options) = Inr (appRoleAssignments sp) \<and>
         commandAction d options =
           (fst (enrichAssignments d (appRoleAssignments sp)),
            snd (getServicePrincipalForApp d (spMatchQuery d options)) @
            snd (enrichAssignments d (appRoleAssignments sp)))"
proof -
  from assms have g: "getAppRoleAssignments d options =
      (Inr (appRoleAssignments sp), snd (getServicePrincipalForApp d (spMatchQuery d options)))"
    by (simp add: getAppRoleAssignments_by_filter)
  from commandAction_resolved [OF g] g show ?thesis by simp
qed

theorem first_service_principal_is_used_witness:
  "\<not> truthy (appObjectId (byDisplayName ''Contoso'')) \<and>
   fst (getServicePrincipalForApp sampleDirectory
          (spMatchQuery sampleDirectory (byDisplayName ''Contoso''))) = Inr [firstApp, secondApp] \<and>
   fst (getAppRoleAssignments sampleDirectory (byDisplayName ''Contoso''))
     = Inr [strayAssignment, sampleAssignment, sampleAssignment] \<and>
   fst (commandAction sampleDirectory (byDisplayName ''Contoso'')) = Inr [sampleRecord, sampleRecord]"
proof -
  let ?o = "byDisplayName ''Contoso''"
  have t: "\<not> truthy (appObjectId ?o)"
    by (simp add: byDisplayName_def)
  have q: "fst (getServicePrincipalForApp sampleDirectory (spMatchQuery sampleDirectory ?o))
             = Inr (firstApp # secondApp # [])"
    by (simp add: getServicePrincipalForApp_def spMatchQuery_def sampleDirectory_def
        byDisplayName_def)
  have a: "appRoleAssignments firstApp = [strayAssignment, sampleAssignment, sampleAssignment]"
    by (simp add: firstApp_def)
  have e: "fst (enrichAssignments sampleDirectory
                  [strayAssignment, sampleAssignment, sampleAssignment])
             = Inr [sampleRecord, sampleRecord]"
    by (simp add: enrichAssignments_fst fetchResources_fst' sample_resourceIds sample_fetch_R1
        joinAssignments_def joinCallback_def sampleResource_def sampleRole_def
        sampleAssignment_def strayAssignment_def sampleRecord_def)
  from first_service_principal_is_used [OF t q] a e t q show ?thesis by simp
qed

section \<open>Validation before the action\<close>

subsection \<open>The GUID validator\<close>

lemma guidMessage_None_iff:
  "guidMessage x = None \<longleftrightarrow> (\<forall>v. x = Some v \<longrightarrow> v = [] \<or> isValidGuid v)"
  by (cases x) simp_all

lemma validator_appId:
  assumes "appId options = Some v" and "v \<noteq> []" and "\<not> isValidGuid v"
  shows "validator options = VMessage (v @ '' is not a valid GUID'')"
  using assms by (simp add: validator_def)

lemma validator_appObjectId:
  assumes "guidMessage (appId options) = None"
    and "appObjectId options = Some w" and "w \<noteq> []" and "\<not> isValidGuid w"
  shows "validator options = VMessage (w @ '' is not a valid GUID'')"
  using assms by (simp add: validator_def)

lemma validator_passes:
  assumes "guidMessage (appId options) = None" and "guidMessage (appObjectId options) = None"
  shows "validator options = VTrue"
  using assms by (simp add: validator_def)

lemma run_validation_failed:
  assumes "validate options = VMessage m"
  shows "run d options = (Inl (ValidationError m), [])"
  using assms by (simp add: run_def)

lemma validate_fails_with_validator:
  assumes "validator options = VMessage m"
  shows "\<exists>m'. validate options = VMessage m'"
  using assms by (cases "validateOptionSets options") (simp_all add: validate_def)

text \<open>
  Claim C8, amended. When the supplied \<open>appId\<close> is a non-empty string that is not a
  valid GUID, the validator returns the message \<open>appId\<close> followed by
  \<open>is not a valid GUID\<close>. When \<open>appId\<close> is absent, empty or valid and the
  supplied \<open>appObjectId\<close> is a non-empty string that is not a valid GUID, it
  returns the same message for \<open>appObjectId\<close>. When each of the two is absent,
  empty or a valid GUID, it returns true. A message of the validator ends the run
  with a validation error and no request.
\<close>

theorem validator_rejects_malformed_guids:
  "(\<forall>v. appId options = Some v \<and> v \<noteq> [] \<and> \<not> isValidGuid v \<longrightarrow>
        validator options = VMessage (v @ '' is not a valid GUID'')) \<and>
   (\<forall>w. (\<forall>v. appId options = Some v \<longrightarrow> v = [] \<or> isValidGuid v) \<and>
        appObjectId options = Some w \<and> w \<noteq> [] \<and> \<not> isValidGuid w \<longrightarrow>
        validator options = VMessage (w @ '' is not a valid GUID'')) \<and>
   ((\<forall>v. appId options = Some v \<longrightarrow> v = [] \<or> isValidGuid v) \<and>
    (\<forall>w. appObjectId options = Some w \<longrightarrow> w = [] \<or> isValidGuid w) \<longrightarrow>
        validator options = VTrue) \<and>
   (\<forall>m. validator options = VMessage m \<longrightarrow>
        (\<exists>m'. run d options = (Inl (ValidationError m'), [])))"
proof (intro conjI allI impI)
  fix v
  assume "appId options = Some v \<and> v \<noteq> [] \<and> \<not> isValidGuid v"
  then show "validator options = VMessage (v @ '' is not a valid GUID'')"
    by (simp add: validator_appId)
next
  fix w
  assume "(\<forall>v. appId options = Some v \<longrightarrow> v = [] \<or> isValidGuid v) \<and>
        appObjectId options = Some w \<and> w \<noteq> [] \<and> \<not> isValidGuid w"
  then show "validator options = VMessage (w @ '' is not a valid GUID'')"
    by (simp add: validator_appObjectId guidMessage_None_iff)
next
  assume "(\<forall>v. appId options = Some v \<longrightarrow> v = [] \<or> isValidGuid v) \<and>
    (\<forall>w. appObjectId options = Some w \<longrightarrow> w = [] \<or> isValidGuid w)"
  then show "validator options = VTrue"
    by (simp add: validator_passes guidMessage_None_iff)
next
  fix m
  assume "validator options = VMessage m"
  from validate_fails_with_validator [OF this] obtain m' where "validate options = VMessage m'"
    by blast
  then have "run d options = (Inl (ValidationError m'), [])"
    by (rule run_validation_failed)
  then show "\<exists>m'. run d options = (Inl (ValidationError m'), [])"
    by blast
qed

lemma not_a_guid: "\<not> isValidGuid ''not-a-guid''"
  by (simp add: isValidGuid_def guid_shape_def)

lemma fours_is_a_guid: "isValidGuid ''44444444-4444-4444-4444-444444444444''"
  by (simp add: isValidGuid_def guid_shape_def guid_class_def)

lemma empty_is_no_guid: "\<not> isValidGuid []"
  by (simp add: isValidGuid_def guid_shape_def)

theorem validator_rejects_malformed_guids_witness:
  "validator (byAppId ''not-a-guid'') = VMessage ''not-a-guid is not a valid GUID'' \<and>
   validator (byObjectId ''not-a-guid'') = VMessage ''not-a-guid is not a valid GUID'' \<and>
   validator (byAppId ''44444444-4444-4444-4444-444444444444'') = VTrue \<and>
   (\<exists>m'. run sampleDirectory (byAppId ''not-a-guid'') = (Inl (ValidationError m'), []))"
proof -
  note A = validator_rejects_malformed_guids [of "byAppId ''not-a-guid''" sampleDirectory]
  note B = validator_rejects_malformed_guids [of "byObjectId ''not-a-guid''" sampleDirectory]
  note C = validator_rejects_malformed_guids
    [of "byAppId ''44444444-4444-4444-4444-444444444444''" sampleDirectory]
  have a: "appId (byAppId ''not-a-guid'') = Some ''not-a-guid'' \<and> ''not-a-guid'' \<noteq> [] \<and>
           \<not> isValidGuid ''not-a-guid''"
    by (simp add: byAppId_def not_a_guid)
  with A have 1: "validator (byAppId ''not-a-guid'') = VMessage (''not-a-guid'' @ '' is not a valid GUID'')"
    by blast
  with A have 4: "\<exists>m'. run sampleDirectory (byAppId ''not-a-guid'') = (Inl (ValidationError m'), [])"
    by blast
  have b: "(\<forall>v. appId (byObjectId ''not-a-guid'') = Some v \<longrightarrow> v = [] \<or> isValidGuid v) \<and>
        appObjectId (byObjectId ''not-a-guid'') = Some ''not-a-guid'' \<and> ''not-a-guid'' \<noteq> [] \<and>
        \<not> isValidGuid ''not-a-guid''"
    by (simp add: byObjectId_def not_a_guid)
  with B have 2: "validator (byObjectId ''not-a-guid'') =
      VMessage (''not-a-guid'' @ '' is not a valid GUID'')"
    by blast
  have c: "(\<forall>v. appId (byAppId ''44444444-4444-4444-4444-444444444444'') = Some v \<longrightarrow>
              v = [] \<or> isValidGuid v) \<and>
           (\<forall>w. appObjectId (byAppId ''44444444-4444-4444-4444-444444444444'') = Some w \<longrightarrow>
              w = [] \<or> isValidGuid w)"
    by (simp add: byAppId_def fours_is_a_guid)
  with C have 3: "validator (byAppId ''44444444-4444-4444-4444-444444444444'') = VTrue"
    by blast
  from 1 2 3 4 show ?thesis by simp
qed

text \<open>
  Claim C8, as stated, fails: the empty string supplied as \<open>appId\<close> is not a valid
  GUID, yet the validator and the whole validation pass, and the run goes on to
  the action, which issues a request.
\<close>

theorem empty_app_id_passes_validation:
  "appId (byAppId []) = Some [] \<and> \<not> isValidGuid [] \<and>
   validator (byAppId []) = VTrue \<and>
   validate (byAppId []) = VTrue \<and>
   run sampleDirectory (byAppId []) = commandAction sampleDirectory (byAppId []) \<and>
   length (snd (run sampleDirectory (byAppId []))) = 1"
proof -
  have v: "validate (byAppId []) = VTrue"
    by (simp add: validate_def validateOptionSets_def optionSets_def suppliedOptions_def
        validator_def byAppId_def)
  then have "run sampleDirectory (byAppId []) = commandAction sampleDirectory (byAppId [])"
    by (simp add: run_def)
  moreover have "commandAction sampleDirectory (byAppId []) =
      (Inl (Thrown ''app registration not found''), snd (getAppRoleAssignments sampleDirectory (byAppId [])))"
    by (rule commandAction_stops)
       (simp add: getAppRoleAssignments_def getServicePrincipalForApp_def spMatchQuery_def
          sampleDirectory_def byAppId_def)
  ultimately show ?thesis
    using v by (simp add: getAppRoleAssignments_one_request empty_is_no_guid)
       (simp add: validator_def byAppId_def)
qed

subsection \<open>The option set\<close>

lemma validateOptionSets_cases:
  "validateOptionSets \<lparr> appId = a, appDisplayName = n, appObjectId = b \<rparr> =
     (if (a \<noteq> None \<and> n = None \<and> b = None) \<or> (a = None \<and> n \<noteq> None \<and> b = None) \<or>
         (a = None \<and> n = None \<and> b \<noteq> None)
      then VTrue else VMessage ''Specify exactly one of the options of the set'')"
  by (simp add: validateOptionSets_def optionSets_def suppliedOptions_def)

lemma validateOptionSets_iff:
  "(validateOptionSets options = VTrue) =
     ((appId options \<noteq> None \<and> appDisplayName options = None \<and> appObjectId options = None) \<or>
      (appId options = None \<and> appDisplayName options \<noteq> None \<and> appObjectId options = None) \<or>
      (appId options = None \<and> appDisplayName options = None \<and> appObjectId options \<noteq> None))"
  by (cases options) (simp add: validateOptionSets_cases)

lemma validateOptionSets_size:
  "(validateOptionSets options = VTrue) = (length (suppliedOptions options) = 1)"
  by (cases options) (simp add: validateOptionSets_cases, simp add: suppliedOptions_def)

text \<open>
  Claim C9. The option set check passes exactly when one of \<open>appId\<close>,
  \<open>appObjectId\<close> and \<open>appDisplayName\<close> is supplied and the other two are not,
  that is, when the number of supplied options is one; when it fails, the run
  ends with its message as a validation error and no request.
\<close>

theorem exactly_one_selector:
  "((validateOptionSets options = VTrue) =
     ((appId options \<noteq> None \<and> appDisplayName options = None \<and> appObjectId options = None) \<or>
      (appId options = None \<and> appDisplayName options \<noteq> None \<and> appObjectId options = None) \<or>
      (appId options = None \<and> appDisplayName options = None \<and> appObjectId options \<noteq> None))) \<and>
   ((validateOptionSets options = VTrue) = (length (suppliedOptions options) = 1)) \<and>
   (\<forall>m. validateOptionSets options = VMessage m \<longrightarrow>
      run d options = (Inl (ValidationError m), []))"
proof (intro conjI allI impI)
  fix m
  assume "validateOptionSets options = VMessage m"
  then have "validate options = VMessage m" by (simp add: validate_def)
  then show "run d options = (Inl (ValidationError m), [])" by (rule run_validation_failed)
qed (rule validateOptionSets_iff validateOptionSets_size)+

theorem exactly_one_selector_witness:
  "validateOptionSets twoSelectors = VMessage ''Specify exactly one of the options of the set'' \<and>
   run sampleDirectory twoSelectors =
     (Inl (ValidationError ''Specify exactly one of the options of the set''), []) \<and>
   validateOptionSets noSelector = VMessage ''Specify exactly one of the options of the set'' \<and>
   run sampleDirectory noSelector =
     (Inl (ValidationError ''Specify exactly one of the options of the set''), []) \<and>
   validateOptionSets (byDisplayName ''Contoso'') = VTrue"
proof -
  have 1: "validateOptionSets twoSelectors = VMessage ''Specify exactly one of the options of the set''"
    by (simp add: twoSelectors_def validateOptionSets_cases)
  have 2: "validateOptionSets noSelector = VMessage ''Specify exactly one of the options of the set''"
    by (simp add: noSelector_def validateOptionSets_cases)
  from exactly_one_selector [of twoSelectors sampleDirectory] 1
  have 3: "run sampleDirectory twoSelectors =
     (Inl (ValidationError ''Specify exactly one of the options of the set''), [])"
    by blast
  from exactly_one_selector [of noSelector sampleDirectory] 2
  have 4: "run sampleDirectory noSelector =
     (Inl (ValidationError ''Specify exactly one of the options of the set''), [])"
    by blast
  have "appId (byDisplayName ''Contoso'') = None \<and>
        appDisplayName (byDisplayName ''Contoso'') \<noteq> None \<and>
        appObjectId (byDisplayName ''Contoso'') = None"
    by (simp add: byDisplayName_def)
  with exactly_one_selector [of "byDisplayName ''Contoso''" sampleDirectory]
  have 5: "validateOptionSets (byDisplayName ''Contoso'') = VTrue"
    by blast
  from 1 2 3 4 5 show ?thesis by simp
qed

text \<open>
  Claim C10. The empty string is not a valid GUID, and the validator returns true
  when it is the \<open>appId\<close> or the \<open>appObjectId\<close> and the other is absent; an
  empty \<open>appId\<close> or \<open>appObjectId\<close> is validated as an absent one, since the
  format check runs only on a truthy value.
\<close>

theorem empty_string_skips_the_guid_check:
  "\<not> isValidGuid [] \<and>
   validator \<lparr> appId = Some [], appDisplayName = n, appObjectId = None \<rparr> = VTrue \<and>
   validator \<lparr> appId = None, appDisplayName = n, appObjectId = Some [] \<rparr> = VTrue \<and>
   validator (options\<lparr> appId := Some [] \<rparr>) = validator (options\<lparr> appId := None \<rparr>) \<and>
   validator (options\<lparr> appObjectId := Some [] \<rparr>) = validator (options\<lparr> appObjectId := None \<rparr>)"
  by (simp add: validator_def empty_is_no_guid split: option.splits)

end
